theory Spec2Isabelle
  imports Main
begin

section \<open>JavaScript values and strings\<close>

text \<open>
  The two source files are \<^verbatim>\<open>src/assets/composables/useEditor.js\<close> (the state
  container) and \<^verbatim>\<open>src/components/CodeEditor.vue\<close> (the editor panel).

  A JavaScript value is one of the primitives below; nothing in the two files builds an
  object that is passed to a setter. A string is the list of its code units, each below
  256 (the Latin-1 range, which holds every character of the two source files), so
  \<^typ>\<open>string\<close> is used as it is.
\<close>

datatype jsval = JUndefined | JNull | JBool bool | JNum int | JStr string

datatype error = TypeError | NotFoundError

text \<open>
  \<^verbatim>\<open>String.prototype.toLowerCase\<close> on the Latin-1 range: the letters A to Z and the
  accented capitals U+00C0 to U+00DE (the multiplication sign U+00D7 apart) move up by 32,
  every other code unit stays. No context-sensitive rule applies in this range.
\<close>

definition lower_char :: "char \<Rightarrow> char" where
  "lower_char c =
     (let n = (of_char c :: nat)
      in if (65 \<le> n \<and> n \<le> 90) \<or> (192 \<le> n \<and> n \<le> 222 \<and> n \<noteq> 215)
         then char_of (n + 32) else c)"

definition toLowerCase :: "string \<Rightarrow> string" where
  "toLowerCase s = map lower_char s"

section \<open>Reactive references\<close>

text \<open>
  Vue's \<^verbatim>\<open>ref(v)\<close> allocates a new reactive cell holding \<^verbatim>\<open>v\<close>. Two cells are
  the same object exactly when they have the same address, so the cells live in an explicit
  store and a reference is an address. \<^verbatim>\<open>r.value\<close> reads a cell, and
  \<^verbatim>\<open>r.value = v\<close> writes it. Every reference the program holds comes from a
  \<^verbatim>\<open>ref\<close> call, so the default of \<open>ref_value\<close> at an address that was never
  allocated is not a value the program can read.
\<close>

record store =
  cells :: "nat \<rightharpoonup> jsval"
  fresh :: nat

definition empty_store :: store where
  "empty_store = \<lparr>cells = Map.empty, fresh = 0\<rparr>"

definition ref :: "jsval \<Rightarrow> store \<Rightarrow> nat \<times> store" where
  "ref v s = (fresh s, s\<lparr>cells := (cells s)(fresh s \<mapsto> v), fresh := Suc (fresh s)\<rparr>)"

definition ref_value :: "store \<Rightarrow> nat \<Rightarrow> jsval" where
  "ref_value s a = (case cells s a of Some v \<Rightarrow> v | None \<Rightarrow> JUndefined)"

definition ref_assign :: "nat \<Rightarrow> jsval \<Rightarrow> store \<Rightarrow> store" where
  "ref_assign a v s = s\<lparr>cells := (cells s)(a \<mapsto> v)\<rparr>"

section \<open>The state container: useEditor.js\<close>

text \<open>
  The template literal of lines 8 to 25 of \<^verbatim>\<open>useEditor.js\<close>, line breaks included.
\<close>

definition html_sample :: string where
  \<open>html_sample = ''<html>\<newline>  <head>\<newline>    <title>HTML Sample</title>\<newline>    <meta http-equiv="X-UA-Compatible" content="IE=edge" />\<newline>    <style type="text/css">\<newline>      h1 {\<newline>        color: #cca3a3;\<newline>      }\<newline>    </style>\<newline>    <script type="text/javascript">\<newline>      alert("I am a sample... visit devChallengs.io for more projects");\<newline>    </script>\<newline>  </head>\<newline>  <body>\<newline>    <h1>Heading No.1</h1>\<newline>    <input disabled type="button" value="Click me" />\<newline>  </body>\<newline></html>''\<close>

text \<open>
  The object that \<^verbatim>\<open>useEditor\<close> returns holds four references and four setters.
  The setters are closures over the same four references, so they are modelled as
  functions of the handle.
\<close>

record handle =
  defaultCode :: nat
  currentLanguage :: nat
  currentTheme :: nat
  currentLink :: nat

text \<open>
  The four \<^verbatim>\<open>ref\<close> calls run inside the function body, in the order language,
  theme, link, code, at every call.
\<close>

definition useEditor :: "store \<Rightarrow> handle \<times> store" where
  "useEditor s =
     (let (language_ref, s1) = ref (JStr ''html'') s;
          (theme_ref, s2) = ref (JStr ''vs-dark'') s1;
          (link_ref, s3) = ref (JStr '''') s2;
          (code_ref, s4) = ref (JStr html_sample) s3
      in (\<lparr>defaultCode = code_ref, currentLanguage = language_ref,
           currentTheme = theme_ref, currentLink = link_ref\<rparr>, s4))"

text \<open>
  \<^verbatim>\<open>language.toLowerCase()\<close> is a method call: on a value that is not a string it
  raises a TypeError before anything is stored.
\<close>

definition setLanguage :: "handle \<Rightarrow> jsval \<Rightarrow> store \<Rightarrow> error + store" where
  "setLanguage h language s =
     (case language of
        JStr l \<Rightarrow> Inr (ref_assign (currentLanguage h) (JStr (toLowerCase l)) s)
      | _ \<Rightarrow> Inl TypeError)"

definition setTheme :: "handle \<Rightarrow> jsval \<Rightarrow> store \<Rightarrow> error + store" where
  "setTheme h theme s =
     Inr (ref_assign (currentTheme h)
            (if theme = JStr ''Dark'' then JStr ''vs-dark'' else JStr ''vs'') s)"

definition setLink :: "handle \<Rightarrow> jsval \<Rightarrow> store \<Rightarrow> error + store" where
  "setLink h link s = Inr (ref_assign (currentLink h) link s)"

definition setCode :: "handle \<Rightarrow> jsval \<Rightarrow> store \<Rightarrow> error + store" where
  "setCode h newCode s = Inr (ref_assign (defaultCode h) newCode s)"

text \<open>
  Two calls of \<^verbatim>\<open>useEditor\<close> in a row, starting from a page that holds no
  reference yet: the first by the editor panel, the second by the host page.
\<close>

definition panel_call :: "handle \<times> store" where
  "panel_call = useEditor empty_store"

definition host_call :: "handle \<times> store" where
  "host_call = useEditor (snd panel_call)"

text \<open>Reading a reference after an operation that may have raised.\<close>

definition value_after :: "error + store \<Rightarrow> nat \<Rightarrow> jsval option" where
  "value_after r a = (case r of Inl e \<Rightarrow> None | Inr s \<Rightarrow> Some (ref_value s a))"

section \<open>The editor panel: CodeEditor.vue\<close>

subsection \<open>The worker-loading strategy\<close>

text \<open>
  The function installed as \<^verbatim>\<open>self.MonacoEnvironment.getWorkerUrl\<close> on mount. The
  comparisons are strict equalities with string literals, tried in the source's order.
\<close>

definition getWorkerUrl :: "jsval \<Rightarrow> jsval \<Rightarrow> string" where
  "getWorkerUrl moduleId label =
     (if label = JStr ''json'' then ''./vs/language/json/json.worker.js''
      else if label = JStr ''css'' \<or> label = JStr ''scss'' \<or> label = JStr ''less''
        then ''./vs/language/css/css.worker.js''
      else if label = JStr ''html'' \<or> label = JStr ''handlebars'' \<or> label = JStr ''razor''
        then ''./vs/language/html/html.worker.js''
      else if label = JStr ''typescript'' \<or> label = JStr ''javascript''
        then ''./vs/language/typescript/ts.worker.js''
      else ''./vs/editor/editor.worker.js'')"

subsection \<open>The page and the browser\<close>

text \<open>
  Every call the panel makes to the console, the clipboard, \<^verbatim>\<open>alert\<close> and the DOM
  is recorded, in order. The error object given to \<^verbatim>\<open>console.error\<close> is not kept.
\<close>

datatype event =
    ConsoleLog string string
  | ConsoleError string
  | WriteText string
  | Alert string
  | CreateElement nat string
  | SetValue nat string
  | AppendChild nat
  | Focus nat
  | Select nat
  | ExecCommand string
  | RemoveChild nat

record element =
  el_tag :: string
  el_value :: string

text \<open>The editing widget is outside the repository; the panel only reads its text.\<close>

record widget =
  getValue :: string

text \<open>
  What the browser and the widget library answer. \<open>ClipAbsent\<close>: there is no
  \<^verbatim>\<open>navigator.clipboard\<close>, so the call raises before any write starts.
  \<open>ClipPending\<close>: the write never settles. \<^verbatim>\<open>document.execCommand\<close> returns a
  boolean or raises. \<open>monaco_create\<close> is given the value, language and theme options
  and returns the widget, or \<open>None\<close> when construction raises.
\<close>

datatype write_outcome = ClipAbsent | ClipRejects | ClipResolves | ClipPending

datatype exec_outcome = ExecTrue | ExecFalse | ExecThrows

record browser =
  writeText :: write_outcome
  execCommand :: exec_outcome
  monaco_create :: "jsval \<Rightarrow> jsval \<Rightarrow> jsval \<Rightarrow> widget option"

text \<open>
  The variables of the component instance: \<^verbatim>\<open>editorStore\<close>, whether the template
  reference \<^verbatim>\<open>editorContainer\<close> holds its element, \<^verbatim>\<open>editor\<close> (\<open>None\<close> is
  \<^verbatim>\<open>null\<close>) and the two visibility flags.
\<close>

record panel =
  editorStore :: handle
  editorContainer :: bool
  editor :: "widget option"
  showLanguages :: bool
  showThemes :: bool

text \<open>
  The page: the reactive cells, the panel, the element objects created so far, the children
  of \<^verbatim>\<open>document.body\<close> in order, whether \<^verbatim>\<open>closeDropdowns\<close> is registered as
  the document's click listener, and the record of calls.
\<close>

record world =
  refs :: store
  comp :: panel
  nodes :: "nat \<rightharpoonup> element"
  next_node :: nat
  body :: "nat list"
  doc_click :: bool
  trace :: "event list"

definition emit :: "event \<Rightarrow> world \<Rightarrow> world" where
  "emit e w = w\<lparr>trace := trace w @ [e]\<rparr>"

definition alert :: "string \<Rightarrow> world \<Rightarrow> world" where
  "alert msg w = emit (Alert msg) w"

definition alerts :: "world \<Rightarrow> string list" where
  "alerts w = concat (map (\<lambda>e. case e of Alert m \<Rightarrow> [m] | _ \<Rightarrow> []) (trace w))"

definition createElement :: "string \<Rightarrow> world \<Rightarrow> nat \<times> world" where
  "createElement t w =
     (next_node w,
      emit (CreateElement (next_node w) t)
        (w\<lparr>nodes := (nodes w)(next_node w \<mapsto> \<lparr>el_tag = t, el_value = []\<rparr>),
           next_node := Suc (next_node w)\<rparr>))"

definition set_value :: "nat \<Rightarrow> string \<Rightarrow> world \<Rightarrow> world" where
  "set_value n v w =
     emit (SetValue n v)
       (w\<lparr>nodes := (case nodes w n of None \<Rightarrow> nodes w
                      | Some el \<Rightarrow> (nodes w)(n \<mapsto> el\<lparr>el_value := v\<rparr>))\<rparr>)"

text \<open>Appending a node that is already a child moves it to the end.\<close>

definition appendChild :: "nat \<Rightarrow> world \<Rightarrow> world" where
  "appendChild n w = emit (AppendChild n) (w\<lparr>body := removeAll n (body w) @ [n]\<rparr>)"

text \<open>Removing a node that is not a child raises.\<close>

definition removeChild :: "nat \<Rightarrow> world \<Rightarrow> error + world" where
  "removeChild n w =
     (if n \<in> set (body w)
      then Inr (emit (RemoveChild n) (w\<lparr>body := removeAll n (body w)\<rparr>))
      else Inl NotFoundError)"

text \<open>
  The body's children are element objects that exist, each once; a new element gets an
  identity that no existing one has.
\<close>

definition wf_world :: "world \<Rightarrow> bool" where
  "wf_world w \<longleftrightarrow> distinct (body w) \<and> list_all (\<lambda>n. n < next_node w) (body w)"

subsection \<open>Setup and mount\<close>

text \<open>
  The top level of the component's script block: one call of \<^verbatim>\<open>useEditor\<close>, and
  the panel's own variables at their initial values.
\<close>

definition script_block :: "store \<Rightarrow> panel \<times> store" where
  "script_block s =
     (let (h, s') = useEditor s
      in (\<lparr>editorStore = h, editorContainer = False, editor = None,
           showLanguages = False, showThemes = False\<rparr>, s'))"

definition initial_world :: world where
  "initial_world =
     (let (p, s) = script_block empty_store
      in \<lparr>refs = s, comp = p, nodes = Map.empty, next_node = 0, body = [],
          doc_click = False, trace = []\<rparr>)"

text \<open>Rendering the template binds \<^verbatim>\<open>editorContainer\<close> to its element.\<close>

definition render :: "world \<Rightarrow> world" where
  "render w = w\<lparr>comp := (comp w)\<lparr>editorContainer := True\<rparr>\<rparr>"

text \<open>
  \<^verbatim>\<open>onMounted\<close>: when construction raises, the assignment to \<^verbatim>\<open>editor\<close> does not
  happen and the error is logged. The listener and the two watch effects registered after
  the construction change neither \<^verbatim>\<open>editor\<close> nor the flags and are left out, and so
  are the constant display options. The document's click listener is registered in every
  case.
\<close>

definition onMounted :: "browser \<Rightarrow> world \<Rightarrow> world" where
  "onMounted b w =
     (let h = editorStore (comp w);
          w1 = (if editorContainer (comp w)
                then (case monaco_create b (ref_value (refs w) (defaultCode h))
                             (ref_value (refs w) (currentLanguage h))
                             (ref_value (refs w) (currentTheme h)) of
                        Some ed \<Rightarrow> w\<lparr>comp := (comp w)\<lparr>editor := Some ed\<rparr>\<rparr>
                      | None \<Rightarrow> emit (ConsoleError ''Failed to initialize Monaco Editor:'') w)
                else w)
      in w1\<lparr>doc_click := True\<rparr>)"

subsection \<open>The dropdown menus\<close>

definition closeDropdowns :: "world \<Rightarrow> world" where
  "closeDropdowns w = w\<lparr>comp := (comp w)\<lparr>showLanguages := False, showThemes := False\<rparr>\<rparr>"

definition changeLanguage :: "jsval \<Rightarrow> world \<Rightarrow> error + world" where
  "changeLanguage language w =
     (case setLanguage (editorStore (comp w)) language (refs w) of
        Inl e \<Rightarrow> Inl e
      | Inr s \<Rightarrow> Inr (w\<lparr>refs := s, comp := (comp w)\<lparr>showLanguages := False\<rparr>\<rparr>))"

definition changeTheme :: "jsval \<Rightarrow> world \<Rightarrow> error + world" where
  "changeTheme theme w =
     (case setTheme (editorStore (comp w)) theme (refs w) of
        Inl e \<Rightarrow> Inl e
      | Inr s \<Rightarrow> Inr (w\<lparr>refs := s, comp := (comp w)\<lparr>showThemes := False\<rparr>\<rparr>))"

text \<open>
  The click listeners of the template and of the document. An option of the language menu
  runs \<^verbatim>\<open>changeLanguage(language.toLowerCase())\<close>, an option of the theme menu
  \<^verbatim>\<open>changeTheme(theme)\<close>; the two toggle buttons negate their flag; the element that
  wraps a toggle button and its menu runs \<^verbatim>\<open>stopPropagation\<close>.
\<close>

datatype listener =
    LanguageOptionClick jsval
  | ThemeOptionClick jsval
  | ToggleLanguages
  | ToggleThemes
  | StopPropagation
  | CloseDropdowns

text \<open>
  A listener that raises is caught by the framework's wrapper. Each one here raises, if at
  all, before its first assignment, so the page is then as it was.
\<close>

fun run_listener :: "listener \<Rightarrow> world \<Rightarrow> world" where
  "run_listener (LanguageOptionClick language) w =
     (case language of
        JStr l \<Rightarrow> (case changeLanguage (JStr (toLowerCase l)) w of Inl e \<Rightarrow> w | Inr w' \<Rightarrow> w')
      | _ \<Rightarrow> w)"
| "run_listener (ThemeOptionClick theme) w =
     (case changeTheme theme w of Inl e \<Rightarrow> w | Inr w' \<Rightarrow> w')"
| "run_listener ToggleLanguages w =
     w\<lparr>comp := (comp w)\<lparr>showLanguages := \<not> showLanguages (comp w)\<rparr>\<rparr>"
| "run_listener ToggleThemes w =
     w\<lparr>comp := (comp w)\<lparr>showThemes := \<not> showThemes (comp w)\<rparr>\<rparr>"
| "run_listener StopPropagation w = w"
| "run_listener CloseDropdowns w = closeDropdowns w"

text \<open>
  A click runs the listeners on the way from its target up to the document, one element
  after the other; after \<^verbatim>\<open>stopPropagation\<close> no element further up is visited.
\<close>

fun propagate :: "listener list \<Rightarrow> world \<Rightarrow> world" where
  "propagate [] w = w"
| "propagate (StopPropagation # ls) w = w"
| "propagate (l # ls) w = propagate ls (run_listener l w)"

datatype target =
    LanguageToggle
  | LanguageOption jsval
  | ThemeToggle
  | ThemeOption jsval
  | Elsewhere

text \<open>The options of a menu are in the document only while its flag is set (\<^verbatim>\<open>v-if\<close>).\<close>

fun rendered :: "target \<Rightarrow> world \<Rightarrow> bool" where
  "rendered (LanguageOption l) w = showLanguages (comp w)"
| "rendered (ThemeOption t) w = showThemes (comp w)"
| "rendered _ w = True"

definition document_listeners :: "world \<Rightarrow> listener list" where
  "document_listeners w = (if doc_click w then [CloseDropdowns] else [])"

fun click_path :: "target \<Rightarrow> world \<Rightarrow> listener list" where
  "click_path LanguageToggle w = [ToggleLanguages, StopPropagation] @ document_listeners w"
| "click_path (LanguageOption l) w =
     [LanguageOptionClick l, StopPropagation] @ document_listeners w"
| "click_path ThemeToggle w = [ToggleThemes, StopPropagation] @ document_listeners w"
| "click_path (ThemeOption t) w = [ThemeOptionClick t, StopPropagation] @ document_listeners w"
| "click_path Elsewhere w = document_listeners w"

definition click :: "target \<Rightarrow> world \<Rightarrow> world option" where
  "click t w = (if rendered t w then Some (propagate (click_path t w) w) else None)"

subsection \<open>The share action\<close>

text \<open>
  \<^verbatim>\<open>shareCode\<close> is asynchronous: its promise is fulfilled, stays pending at the
  \<^verbatim>\<open>await\<close>, or is rejected by an error that no handler catches. Each carries the page
  as the action left it.
\<close>

datatype promise = Fulfilled world | Pending world | Rejected error world

text \<open>
  The Share button, whose click listener is \<^verbatim>\<open>shareCode\<close>, lies outside both
  wrapping elements; the action itself neither reads nor writes the two visibility flags.

  The \<^verbatim>\<open>catch\<close> block of lines 140 to 156. The return value of
  \<^verbatim>\<open>execCommand\<close> is not looked at: only a raise leads to the failure message.
  \<^verbatim>\<open>removeChild\<close> stands after the inner \<^verbatim>\<open>try\<close>, outside any handler.
\<close>

definition shareCode_catch :: "browser \<Rightarrow> string \<Rightarrow> world \<Rightarrow> promise" where
  "shareCode_catch b code w =
     (let w0 = emit (ConsoleError ''Error copying code:'') w;
          (textArea, w1) = createElement ''textarea'' w0;
          w2 = set_value textArea code w1;
          w3 = appendChild textArea w2;
          w4 = emit (Focus textArea) w3;
          w5 = emit (Select textArea) w4;
          w6 = emit (ExecCommand ''copy'') w5;
          w7 = (case execCommand b of
                  ExecThrows \<Rightarrow>
                    alert ''Failed to copy code. Please copy it manually.''
                      (emit (ConsoleError ''Fallback copy failed:'') w6)
                | _ \<Rightarrow> alert ''Code copied to clipboard!'' w6)
      in case removeChild textArea w7 of
           Inl e \<Rightarrow> Rejected e w7
         | Inr w8 \<Rightarrow> Fulfilled w8)"

definition shareCode :: "browser \<Rightarrow> world \<Rightarrow> promise" where
  "shareCode b w =
     (case editor (comp w) of
        None \<Rightarrow> Fulfilled w
      | Some ed \<Rightarrow>
          (let code = getValue ed;
               w1 = emit (ConsoleLog ''Sharing code:'' code) w
           in case writeText b of
                ClipResolves \<Rightarrow>
                  Fulfilled (alert ''Code copied to clipboard!'' (emit (WriteText code) w1))
              | ClipPending \<Rightarrow> Pending (emit (WriteText code) w1)
              | ClipRejects \<Rightarrow> shareCode_catch b code (emit (WriteText code) w1)
              | ClipAbsent \<Rightarrow> shareCode_catch b code w1))"

section \<open>Sample browsers and pages\<close>

text \<open>
  A browser without \<^verbatim>\<open>navigator.clipboard\<close> whose legacy copy command works, one whose
  clipboard write resolves, and one where the clipboard write is rejected, the legacy
  command raises and the widget cannot be constructed.
\<close>

definition legacy_browser :: browser where
  "legacy_browser =
     \<lparr>writeText = ClipAbsent, execCommand = ExecTrue,
      monaco_create = (\<lambda>v l t. case v of JStr c \<Rightarrow> Some \<lparr>getValue = c\<rparr> | _ \<Rightarrow> None)\<rparr>"

definition modern_browser :: browser where
  "modern_browser = legacy_browser\<lparr>writeText := ClipResolves\<rparr>"

definition broken_browser :: browser where
  "broken_browser =
     \<lparr>writeText = ClipRejects, execCommand = ExecThrows, monaco_create = (\<lambda>v l t. None)\<rparr>"

text \<open>
  The page after the panel was mounted with a widget, the same page after a click on the
  language toggle, and after a further click on the theme toggle; and the page after a
  mount whose widget construction raised.
\<close>

definition mounted_world :: world where
  "mounted_world = onMounted legacy_browser (render initial_world)"

definition language_menu_open :: world where
  "language_menu_open = propagate (click_path LanguageToggle mounted_world) mounted_world"

definition menus_open :: world where
  "menus_open = propagate (click_path ThemeToggle language_menu_open) language_menu_open"

definition degraded_world :: world where
  "degraded_world = onMounted broken_browser (render initial_world)"

section \<open>Auxiliary facts\<close>

lemma useEditor_eq:
  "useEditor s =
     (\<lparr>defaultCode = Suc (Suc (Suc (fresh s))), currentLanguage = fresh s,
       currentTheme = Suc (fresh s), currentLink = Suc (Suc (fresh s))\<rparr>,
      s\<lparr>cells := (cells s)(fresh s \<mapsto> JStr ''html'', Suc (fresh s) \<mapsto> JStr ''vs-dark'',
                            Suc (Suc (fresh s)) \<mapsto> JStr '''',
                            Suc (Suc (Suc (fresh s))) \<mapsto> JStr html_sample),
        fresh := Suc (Suc (Suc (Suc (fresh s))))\<rparr>)"
  by (simp add: useEditor_def ref_def)

lemma of_char_lower_char:
  "of_char (lower_char c) =
     (let n = (of_char c :: nat)
      in if (65 \<le> n \<and> n \<le> 90) \<or> (192 \<le> n \<and> n \<le> 222 \<and> n \<noteq> 215) then n + 32 else n)"
  by (auto simp add: lower_char_def Let_def)

lemma lower_char_idem: "lower_char (lower_char c) = lower_char c"
proof -
  let ?n = "of_char c :: nat"
  show ?thesis
  proof (cases "(65 \<le> ?n \<and> ?n \<le> 90) \<or> (192 \<le> ?n \<and> ?n \<le> 222 \<and> ?n \<noteq> 215)")
    case True
    then have "of_char (lower_char c) = ?n + 32"
      by (simp add: of_char_lower_char)
    with True show ?thesis
      by (subst (1) lower_char_def) (auto simp add: Let_def)
  next
    case False
    then show ?thesis by (auto simp add: lower_char_def Let_def)
  qed
qed

lemma toLowerCase_idem: "toLowerCase (toLowerCase s) = toLowerCase s"
  by (simp add: toLowerCase_def lower_char_idem)

lemma value_after_assign:
  "value_after (Inr (ref_assign a v s)) a' = Some (if a' = a then v else ref_value s a')"
  by (simp add: value_after_def ref_assign_def ref_value_def)

lemma fresh_ref_assign: "fresh (ref_assign a v s) = fresh s"
  by (simp add: ref_assign_def)

lemma fresh_useEditor: "fresh (snd (useEditor s)) = fresh s + 4"
  by (simp add: useEditor_eq)

lemma alerts_emit: "alerts (emit e w) = alerts w @ (case e of Alert m \<Rightarrow> [m] | _ \<Rightarrow> [])"
  by (simp add: alerts_def emit_def)

lemma wf_world_fresh: "wf_world w \<Longrightarrow> next_node w \<notin> set (body w)"
  by (auto simp add: wf_world_def list_all_iff)

lemma shareCode_catch_eq:
  assumes "next_node w \<notin> set (body w)"
  shows "shareCode_catch b code w =
     Fulfilled (w\<lparr>nodes := (nodes w)(next_node w \<mapsto> \<lparr>el_tag = ''textarea'', el_value = code\<rparr>),
                 next_node := Suc (next_node w),
                 trace := trace w @
                   [ConsoleError ''Error copying code:'',
                    CreateElement (next_node w) ''textarea'', SetValue (next_node w) code,
                    AppendChild (next_node w), Focus (next_node w), Select (next_node w),
                    ExecCommand ''copy''] @
                   (if execCommand b = ExecThrows
                    then [ConsoleError ''Fallback copy failed:'',
                          Alert ''Failed to copy code. Please copy it manually.'']
                    else [Alert ''Code copied to clipboard!'']) @
                   [RemoveChild (next_node w)]\<rparr>)"
  using assms
  by (cases "execCommand b")
     (simp_all add: shareCode_catch_def createElement_def set_value_def appendChild_def
        removeChild_def emit_def alert_def Let_def)

text \<open>The share action keeps the page well formed, however it ends.\<close>

lemma wf_world_shareCode:
  assumes "wf_world w"
  shows "case shareCode b w of
           Fulfilled w' \<Rightarrow> wf_world w' | Pending w' \<Rightarrow> wf_world w' | Rejected e w' \<Rightarrow> wf_world w'"
proof (cases "editor (comp w)")
  case None
  with assms show ?thesis by (simp add: shareCode_def)
next
  case (Some ed)
  from assms have fresh: "next_node w \<notin> set (body w)"
    by (rule wf_world_fresh)
  from assms have less: "list_all (\<lambda>n. n < Suc (next_node w)) (body w)"
    by (auto simp add: wf_world_def list_all_iff)
  from assms have bound: "list_all (\<lambda>n. n < next_node w) (body w)"
    by (simp add: wf_world_def)
  from assms have dist: "distinct (body w)"
    by (simp add: wf_world_def)
  show ?thesis
    using Some fresh less bound dist
    by (cases "writeText b")
       (simp_all add: shareCode_def Let_def shareCode_catch_eq emit_def alert_def wf_world_def)
qed

lemma changeLanguage_eq:
  "changeLanguage (JStr L) w =
     Inr (w\<lparr>refs := ref_assign (currentLanguage (editorStore (comp w)))
                      (JStr (toLowerCase L)) (refs w),
            comp := (comp w)\<lparr>showLanguages := False\<rparr>\<rparr>)"
  by (simp add: changeLanguage_def setLanguage_def)

lemma initial_world_eq:
  "initial_world =
     \<lparr>refs = snd (useEditor empty_store),
      comp = \<lparr>editorStore = fst (useEditor empty_store), editorContainer = False,
              editor = None, showLanguages = False, showThemes = False\<rparr>,
      nodes = Map.empty, next_node = 0, body = [], doc_click = False, trace = []\<rparr>"
  by (simp add: initial_world_def script_block_def split_beta)

lemma mounted_world_eq:
  "mounted_world =
     \<lparr>refs = snd (useEditor empty_store),
      comp = \<lparr>editorStore = fst (useEditor empty_store), editorContainer = True,
              editor = Some \<lparr>getValue = html_sample\<rparr>, showLanguages = False,
              showThemes = False\<rparr>,
      nodes = Map.empty, next_node = 0, body = [], doc_click = True, trace = []\<rparr>"
  by (simp add: mounted_world_def onMounted_def render_def initial_world_eq legacy_browser_def
      useEditor_eq ref_value_def Let_def)

lemma degraded_world_eq:
  "degraded_world =
     \<lparr>refs = snd (useEditor empty_store),
      comp = \<lparr>editorStore = fst (useEditor empty_store), editorContainer = True,
              editor = None, showLanguages = False, showThemes = False\<rparr>,
      nodes = Map.empty, next_node = 0, body = [], doc_click = True,
      trace = [ConsoleError ''Failed to initialize Monaco Editor:'']\<rparr>"
  by (simp add: degraded_world_def onMounted_def render_def initial_world_eq broken_browser_def
      emit_def Let_def)

lemma language_menu_open_eq:
  "language_menu_open = mounted_world\<lparr>comp := (comp mounted_world)\<lparr>showLanguages := True\<rparr>\<rparr>"
  by (simp add: language_menu_open_def mounted_world_eq)

lemma menus_open_eq:
  "menus_open =
     mounted_world\<lparr>comp := (comp mounted_world)\<lparr>showLanguages := True, showThemes := True\<rparr>\<rparr>"
  by (simp add: menus_open_def language_menu_open_eq mounted_world_eq)

text \<open>
  The page is well formed from the start, and mounting and clicks keep it so: they touch
  neither the body nor the element counter.
\<close>

lemma wf_world_initial: "wf_world initial_world"
  by (simp add: wf_world_def initial_world_eq)

lemma wf_world_onMounted: "wf_world w \<Longrightarrow> wf_world (onMounted b (render w))"
  by (simp add: wf_world_def onMounted_def render_def emit_def Let_def split: option.split)

lemma wf_world_run_listener: "wf_world w \<Longrightarrow> wf_world (run_listener l w)"
  by (cases l)
     (simp_all add: wf_world_def closeDropdowns_def changeLanguage_def changeTheme_def
        split: jsval.split sum.split)

lemma wf_world_propagate: "wf_world w \<Longrightarrow> wf_world (propagate ls w)"
proof (induction ls arbitrary: w)
  case Nil
  then show ?case by simp
next
  case (Cons l ls)
  from Cons.prems have "wf_world (run_listener l w)"
    by (rule wf_world_run_listener)
  then have "wf_world (propagate ls (run_listener l w))"
    by (rule Cons.IH)
  with Cons.prems show ?case
    by (cases l) (simp_all del: run_listener.simps)
qed

lemma lower_samples:
  "toLowerCase ''CSS'' = ''css''"
  "toLowerCase ''Python'' = ''python''"
  "toLowerCase ''TypeScript'' = ''typescript''"
  by code_simp+

section \<open>The state container\<close>

text \<open>
  Claim C1, as stated: any two calls of \<^verbatim>\<open>useEditor\<close> return handles to the same
  state, so that a mutation through one handle's setter is read through the other handle.
  It fails: after the panel's call and the host page's call, \<^verbatim>\<open>setLanguage("CSS")\<close>
  through the panel's handle is read as \<^verbatim>\<open>"css"\<close> through the panel's handle, and the
  host's handle still reads \<^verbatim>\<open>"html"\<close>.
\<close>

theorem useEditor_not_shared:
  "value_after (setLanguage (fst panel_call) (JStr ''CSS'') (snd host_call))
       (currentLanguage (fst panel_call)) = Some (JStr ''css'')
   \<and> value_after (setLanguage (fst panel_call) (JStr ''CSS'') (snd host_call))
       (currentLanguage (fst host_call)) = Some (JStr ''html'')
   \<and> value_after (setLanguage (fst panel_call) (JStr ''CSS'') (snd host_call))
       (currentLanguage (fst host_call)) \<noteq> Some (JStr ''css'')"
  by code_simp

text \<open>
  Claim C1, amended: every call of \<^verbatim>\<open>useEditor\<close> allocates its own four cells. Take
  a handle \<open>h1\<close> from one call and a handle \<open>h2\<close> from any later call (the store
  only grows in between). A mutation through a setter of either handle is read through that
  same handle; through the other handle it is not: \<open>h2\<close> still reads its initial value
  after a mutation through \<open>h1\<close>, and \<open>h1\<close> reads what it read before after a mutation
  through \<open>h2\<close>.
\<close>

theorem useEditor_state_per_call:
  assumes "useEditor s0 = (h1, s1)" and "fresh s1 \<le> fresh s" and "useEditor s = (h2, s2)"
  shows "value_after (setLanguage h1 (JStr L) s2) (currentLanguage h1) = Some (JStr (toLowerCase L))
       \<and> value_after (setLanguage h1 (JStr L) s2) (currentLanguage h2) = Some (JStr ''html'')
       \<and> value_after (setLanguage h2 (JStr L) s2) (currentLanguage h2) = Some (JStr (toLowerCase L))
       \<and> value_after (setLanguage h2 (JStr L) s2) (currentLanguage h1)
           = Some (ref_value s2 (currentLanguage h1))
       \<and> value_after (setTheme h1 v s2) (currentTheme h1)
           = Some (JStr (if v = JStr ''Dark'' then ''vs-dark'' else ''vs''))
       \<and> value_after (setTheme h1 v s2) (currentTheme h2) = Some (JStr ''vs-dark'')
       \<and> value_after (setTheme h2 v s2) (currentTheme h2)
           = Some (JStr (if v = JStr ''Dark'' then ''vs-dark'' else ''vs''))
       \<and> value_after (setTheme h2 v s2) (currentTheme h1) = Some (ref_value s2 (currentTheme h1))
       \<and> value_after (setCode h1 v s2) (defaultCode h1) = Some v
       \<and> value_after (setCode h1 v s2) (defaultCode h2) = Some (JStr html_sample)
       \<and> value_after (setCode h2 v s2) (defaultCode h2) = Some v
       \<and> value_after (setCode h2 v s2) (defaultCode h1) = Some (ref_value s2 (defaultCode h1))
       \<and> value_after (setLink h1 v s2) (currentLink h1) = Some v
       \<and> value_after (setLink h1 v s2) (currentLink h2) = Some (JStr '''')
       \<and> value_after (setLink h2 v s2) (currentLink h2) = Some v
       \<and> value_after (setLink h2 v s2) (currentLink h1) = Some (ref_value s2 (currentLink h1))"
proof -
  from assms(1) have h1: "h1 = fst (useEditor s0)" and s1: "s1 = snd (useEditor s0)"
    by simp_all
  from assms(3) have h2: "h2 = fst (useEditor s)" and s2: "s2 = snd (useEditor s)"
    by simp_all
  from assms(2) have apart: "fresh s0 + 4 \<le> fresh s"
    by (simp add: s1 fresh_useEditor)
  show ?thesis
    unfolding h1 h2 s2 using apart
    by (simp add: useEditor_eq setLanguage_def setTheme_def setCode_def setLink_def
        value_after_assign ref_value_def)
qed

text \<open>
  Claim C1, amended, at the panel's call and the host page's call: the panel's handle reads
  its own mutation, the host's handle reads its initial language.
\<close>

theorem useEditor_state_per_call_witness:
  "useEditor empty_store = (fst panel_call, snd panel_call)
   \<and> fresh (snd panel_call) \<le> fresh (snd panel_call)
   \<and> useEditor (snd panel_call) = (fst host_call, snd host_call)
   \<and> value_after (setLanguage (fst panel_call) (JStr ''CSS'') (snd host_call))
       (currentLanguage (fst panel_call)) = Some (JStr ''css'')
   \<and> value_after (setLanguage (fst panel_call) (JStr ''CSS'') (snd host_call))
       (currentLanguage (fst host_call)) = Some (JStr ''html'')
   \<and> value_after (setCode (fst host_call) (JStr ''x'') (snd host_call))
       (defaultCode (fst host_call)) = Some (JStr ''x'')
   \<and> value_after (setCode (fst panel_call) (JStr ''x'') (snd host_call))
       (defaultCode (fst host_call)) = Some (JStr html_sample)"
proof -
  have a: "useEditor empty_store = (fst panel_call, snd panel_call)"
    by (simp add: panel_call_def)
  have b: "fresh (snd panel_call) \<le> fresh (snd panel_call)"
    by simp
  have c: "useEditor (snd panel_call) = (fst host_call, snd host_call)"
    by (simp add: host_call_def)
  from useEditor_state_per_call [OF a b c, of "''CSS''" "JStr ''x''"] a b c
  show ?thesis
    by (simp add: lower_samples)
qed

text \<open>
  Claim C2: \<^verbatim>\<open>setTheme\<close> never fails; it stores \<^verbatim>\<open>"vs-dark"\<close> when its argument is
  exactly the string \<^verbatim>\<open>"Dark"\<close> and \<^verbatim>\<open>"vs"\<close> for every other argument.
\<close>

theorem setTheme_dark_or_light:
  "(\<exists>s'. setTheme h theme s = Inr s')
   \<and> (theme = JStr ''Dark''
        \<longrightarrow> value_after (setTheme h theme s) (currentTheme h) = Some (JStr ''vs-dark''))
   \<and> (theme \<noteq> JStr ''Dark''
        \<longrightarrow> value_after (setTheme h theme s) (currentTheme h) = Some (JStr ''vs''))"
  by (simp add: setTheme_def value_after_assign)

text \<open>
  Claim C2 at \<^verbatim>\<open>"Dark"\<close>, \<^verbatim>\<open>"dark"\<close>, \<^verbatim>\<open>"Light"\<close> and the empty string, through
  the panel's handle.
\<close>

theorem setTheme_dark_or_light_witness:
  "value_after (setTheme (fst panel_call) (JStr ''Dark'') (snd panel_call))
       (currentTheme (fst panel_call)) = Some (JStr ''vs-dark'')
   \<and> value_after (setTheme (fst panel_call) (JStr ''dark'') (snd panel_call))
       (currentTheme (fst panel_call)) = Some (JStr ''vs'')
   \<and> value_after (setTheme (fst panel_call) (JStr ''Light'') (snd panel_call))
       (currentTheme (fst panel_call)) = Some (JStr ''vs'')
   \<and> value_after (setTheme (fst panel_call) (JStr '''') (snd panel_call))
       (currentTheme (fst panel_call)) = Some (JStr ''vs'')"
  using setTheme_dark_or_light [of "fst panel_call" "JStr ''Dark''" "snd panel_call"]
    setTheme_dark_or_light [of "fst panel_call" "JStr ''dark''" "snd panel_call"]
    setTheme_dark_or_light [of "fst panel_call" "JStr ''Light''" "snd panel_call"]
    setTheme_dark_or_light [of "fst panel_call" "JStr ''''" "snd panel_call"]
  by simp

text \<open>
  Claim C3: for every string \<open>L\<close>, \<^verbatim>\<open>setLanguage(L)\<close> does not fail, and the stored
  language read afterwards is \<^verbatim>\<open>L.toLowerCase()\<close>.
\<close>

theorem setLanguage_lowercases:
  "(\<exists>s'. setLanguage h (JStr L) s = Inr s')
   \<and> value_after (setLanguage h (JStr L) s) (currentLanguage h) = Some (JStr (toLowerCase L))"
  by (simp add: setLanguage_def value_after_assign)

text \<open>Claim C3 at \<^verbatim>\<open>"TypeScript"\<close>, through the panel's handle.\<close>

theorem setLanguage_lowercases_witness:
  "value_after (setLanguage (fst panel_call) (JStr ''TypeScript'') (snd panel_call))
     (currentLanguage (fst panel_call)) = Some (JStr ''typescript'')"
  using setLanguage_lowercases [of "fst panel_call" "''TypeScript''" "snd panel_call"]
  by (simp add: lower_samples)

text \<open>
  Claim C4: for every text \<open>T\<close>, of any length, \<^verbatim>\<open>setCode(T)\<close> does not fail and
  the stored code read afterwards is \<open>T\<close> itself.
\<close>

theorem setCode_roundtrip:
  "(\<exists>s'. setCode h (JStr T) s = Inr s')
   \<and> value_after (setCode h (JStr T) s) (defaultCode h) = Some (JStr T)"
  by (simp add: setCode_def value_after_assign)

text \<open>Claim C4 at the empty string and at a text of two lines.\<close>

theorem setCode_roundtrip_witness:
  "value_after (setCode (fst panel_call) (JStr '''') (snd panel_call))
       (defaultCode (fst panel_call)) = Some (JStr '''')
   \<and> value_after (setCode (fst panel_call) (JStr ''a\<newline>b'') (snd panel_call))
       (defaultCode (fst panel_call)) = Some (JStr ''a\<newline>b'')"
  using setCode_roundtrip [of "fst panel_call" "''''" "snd panel_call"]
    setCode_roundtrip [of "fst panel_call" "''a\<newline>b''" "snd panel_call"]
  by simp

text \<open>
  Claim C9: right after a call of \<^verbatim>\<open>useEditor\<close>, before any setter, the returned handle
  reads language \<^verbatim>\<open>"html"\<close>, theme \<^verbatim>\<open>"vs-dark"\<close>, the empty share link and, as
  code, the HTML sample of lines 8 to 25 of \<^verbatim>\<open>useEditor.js\<close>, written out in full below.
\<close>

theorem useEditor_initial_state:
  \<open>ref_value (snd (useEditor s)) (currentLanguage (fst (useEditor s))) = JStr ''html''
   \<and> ref_value (snd (useEditor s)) (currentTheme (fst (useEditor s))) = JStr ''vs-dark''
   \<and> ref_value (snd (useEditor s)) (currentLink (fst (useEditor s))) = JStr ''''
   \<and> ref_value (snd (useEditor s)) (defaultCode (fst (useEditor s))) =
       JStr ''<html>\<newline>  <head>\<newline>    <title>HTML Sample</title>\<newline>    <meta http-equiv="X-UA-Compatible" content="IE=edge" />\<newline>    <style type="text/css">\<newline>      h1 {\<newline>        color: #cca3a3;\<newline>      }\<newline>    </style>\<newline>    <script type="text/javascript">\<newline>      alert("I am a sample... visit devChallengs.io for more projects");\<newline>    </script>\<newline>  </head>\<newline>  <body>\<newline>    <h1>Heading No.1</h1>\<newline>    <input disabled type="button" value="Click me" />\<newline>  </body>\<newline></html>''\<close>
  by (simp add: useEditor_eq ref_value_def html_sample_def)

text \<open>
  Claim C9 at the panel's call, the first of the page, with the code text again written out.
\<close>

theorem useEditor_initial_state_witness:
  \<open>ref_value (snd panel_call) (currentLanguage (fst panel_call)) = JStr ''html''
   \<and> ref_value (snd panel_call) (currentTheme (fst panel_call)) = JStr ''vs-dark''
   \<and> ref_value (snd panel_call) (currentLink (fst panel_call)) = JStr ''''
   \<and> ref_value (snd panel_call) (defaultCode (fst panel_call)) =
       JStr ''<html>\<newline>  <head>\<newline>    <title>HTML Sample</title>\<newline>    <meta http-equiv="X-UA-Compatible" content="IE=edge" />\<newline>    <style type="text/css">\<newline>      h1 {\<newline>        color: #cca3a3;\<newline>      }\<newline>    </style>\<newline>    <script type="text/javascript">\<newline>      alert("I am a sample... visit devChallengs.io for more projects");\<newline>    </script>\<newline>  </head>\<newline>  <body>\<newline>    <h1>Heading No.1</h1>\<newline>    <input disabled type="button" value="Click me" />\<newline>  </body>\<newline></html>''\<close>
  using useEditor_initial_state [of empty_store]
  by (simp add: panel_call_def)

section \<open>The editor panel\<close>

text \<open>
  Claim C8: the worker-loading function maps the label \<^verbatim>\<open>json\<close> to the JSON worker,
  \<^verbatim>\<open>css\<close>, \<^verbatim>\<open>scss\<close> and \<^verbatim>\<open>less\<close> to the CSS worker, \<^verbatim>\<open>html\<close>,
  \<^verbatim>\<open>handlebars\<close> and \<^verbatim>\<open>razor\<close> to the HTML worker, \<^verbatim>\<open>typescript\<close> and
  \<^verbatim>\<open>javascript\<close> to the TypeScript worker, and every other label to
  \<^verbatim>\<open>./vs/editor/editor.worker.js\<close>.
\<close>

theorem getWorkerUrl_table:
  "getWorkerUrl m (JStr ''json'') = ''./vs/language/json/json.worker.js''
   \<and> getWorkerUrl m (JStr ''css'') = ''./vs/language/css/css.worker.js''
   \<and> getWorkerUrl m (JStr ''scss'') = ''./vs/language/css/css.worker.js''
   \<and> getWorkerUrl m (JStr ''less'') = ''./vs/language/css/css.worker.js''
   \<and> getWorkerUrl m (JStr ''html'') = ''./vs/language/html/html.worker.js''
   \<and> getWorkerUrl m (JStr ''handlebars'') = ''./vs/language/html/html.worker.js''
   \<and> getWorkerUrl m (JStr ''razor'') = ''./vs/language/html/html.worker.js''
   \<and> getWorkerUrl m (JStr ''typescript'') = ''./vs/language/typescript/ts.worker.js''
   \<and> getWorkerUrl m (JStr ''javascript'') = ''./vs/language/typescript/ts.worker.js''
   \<and> (label \<notin> {JStr ''json'', JStr ''css'', JStr ''scss'', JStr ''less'', JStr ''html'',
                 JStr ''handlebars'', JStr ''razor'', JStr ''typescript'', JStr ''javascript''}
        \<longrightarrow> getWorkerUrl m label = ''./vs/editor/editor.worker.js'')"
  by (simp add: getWorkerUrl_def)

text \<open>
  Claim C8 at the labels \<^verbatim>\<open>python\<close> and \<^verbatim>\<open>JSON\<close> and at an undefined label, none
  of them among the nine.
\<close>

theorem getWorkerUrl_table_witness:
  "getWorkerUrl JUndefined (JStr ''python'') = ''./vs/editor/editor.worker.js''
   \<and> getWorkerUrl JUndefined (JStr ''JSON'') = ''./vs/editor/editor.worker.js''
   \<and> getWorkerUrl JUndefined JUndefined = ''./vs/editor/editor.worker.js''"
  using getWorkerUrl_table [of JUndefined "JStr ''python''"]
    getWorkerUrl_table [of JUndefined "JStr ''JSON''"]
    getWorkerUrl_table [of JUndefined JUndefined]
  by simp

text \<open>
  Claim C7: a click on an option \<open>L\<close> of the open language menu stores
  \<^verbatim>\<open>L.toLowerCase()\<close> as the language and closes the language menu; the theme
  menu's flag is what it was before.
\<close>

theorem language_option_click:
  assumes "showLanguages (comp w)"
  shows "\<exists>w'. click (LanguageOption (JStr L)) w = Some w'
     \<and> ref_value (refs w') (currentLanguage (editorStore (comp w'))) = JStr (toLowerCase L)
     \<and> \<not> showLanguages (comp w')
     \<and> showThemes (comp w') = showThemes (comp w)"
  using assms
  by (simp add: click_def changeLanguage_eq toLowerCase_idem ref_assign_def ref_value_def)

text \<open>
  Claim C7 at the option \<^verbatim>\<open>"Python"\<close>, once with the theme menu open and once with it
  closed.
\<close>

theorem language_option_click_witness:
  "showLanguages (comp menus_open) \<and> showThemes (comp menus_open)
   \<and> (\<exists>w'. click (LanguageOption (JStr ''Python'')) menus_open = Some w'
        \<and> ref_value (refs w') (currentLanguage (editorStore (comp w'))) = JStr ''python''
        \<and> \<not> showLanguages (comp w') \<and> showThemes (comp w'))
   \<and> showLanguages (comp language_menu_open) \<and> \<not> showThemes (comp language_menu_open)
   \<and> (\<exists>w'. click (LanguageOption (JStr ''Python'')) language_menu_open = Some w'
        \<and> ref_value (refs w') (currentLanguage (editorStore (comp w'))) = JStr ''python''
        \<and> \<not> showLanguages (comp w') \<and> \<not> showThemes (comp w'))"
proof -
  have a: "showLanguages (comp menus_open)" and a': "showThemes (comp menus_open)"
    by (simp_all add: menus_open_eq)
  have b: "showLanguages (comp language_menu_open)"
    and b': "\<not> showThemes (comp language_menu_open)"
    by (simp_all add: language_menu_open_eq mounted_world_eq)
  from language_option_click [OF a, of "''Python''"]
    language_option_click [OF b, of "''Python''"] a a' b b'
  show ?thesis
    by (simp add: lower_samples)
qed

text \<open>
  Claim C5: with a widget present and a clipboard write that is rejected or cannot be
  started, the share action completes. It creates a text field that holds the code, appends
  it to the body, runs the legacy copy command, raises exactly one notification (failure
  when the command raised, success otherwise), and removes the field last, so that the
  body's children are what they were before.
\<close>

theorem shareCode_fallback:
  assumes "wf_world w" and "editor (comp w) = Some ed"
    and "writeText b = ClipRejects \<or> writeText b = ClipAbsent"
  shows "\<exists>w'. shareCode b w = Fulfilled w'
     \<and> alerts w' = alerts w @
          [if execCommand b = ExecThrows then ''Failed to copy code. Please copy it manually.''
           else ''Code copied to clipboard!'']
     \<and> nodes w' (next_node w) = Some \<lparr>el_tag = ''textarea'', el_value = getValue ed\<rparr>
     \<and> next_node w \<notin> set (body w')
     \<and> body w' = body w
     \<and> trace w' = trace w @
          [ConsoleLog ''Sharing code:'' (getValue ed)] @
          (if writeText b = ClipRejects then [WriteText (getValue ed)] else []) @
          [ConsoleError ''Error copying code:'',
           CreateElement (next_node w) ''textarea'', SetValue (next_node w) (getValue ed),
           AppendChild (next_node w), Focus (next_node w), Select (next_node w),
           ExecCommand ''copy''] @
          (if execCommand b = ExecThrows
           then [ConsoleError ''Fallback copy failed:'',
                 Alert ''Failed to copy code. Please copy it manually.'']
           else [Alert ''Code copied to clipboard!'']) @
          [RemoveChild (next_node w)]"
proof -
  from assms(1) have fresh: "next_node w \<notin> set (body w)"
    by (rule wf_world_fresh)
  from assms(3) show ?thesis
  proof
    assume "writeText b = ClipRejects"
    with assms(2) fresh show ?thesis
      by (simp add: shareCode_def Let_def shareCode_catch_eq emit_def alerts_def)
  next
    assume "writeText b = ClipAbsent"
    with assms(2) fresh show ?thesis
      by (simp add: shareCode_def Let_def shareCode_catch_eq emit_def alerts_def)
  qed
qed

text \<open>
  Claim C5 on the mounted page: without a clipboard and with a working legacy command there
  is one success notification; with a rejected write and a legacy command that raises there
  is one failure notification; the body is empty afterwards both times.
\<close>

theorem shareCode_fallback_witness:
  "wf_world mounted_world \<and> editor (comp mounted_world) = Some \<lparr>getValue = html_sample\<rparr>
   \<and> writeText legacy_browser = ClipAbsent \<and> writeText broken_browser = ClipRejects
   \<and> (\<exists>w'. shareCode legacy_browser mounted_world = Fulfilled w'
        \<and> alerts w' = [''Code copied to clipboard!''] \<and> body w' = []
        \<and> nodes w' 0 = Some \<lparr>el_tag = ''textarea'', el_value = html_sample\<rparr>)
   \<and> (\<exists>w'. shareCode broken_browser mounted_world = Fulfilled w'
        \<and> alerts w' = [''Failed to copy code. Please copy it manually.''] \<and> body w' = []
        \<and> nodes w' 0 = Some \<lparr>el_tag = ''textarea'', el_value = html_sample\<rparr>)"
proof -
  have wf: "wf_world mounted_world"
    by (simp add: wf_world_def mounted_world_eq)
  have ed: "editor (comp mounted_world) = Some \<lparr>getValue = html_sample\<rparr>"
    by (simp add: mounted_world_eq)
  have l: "writeText legacy_browser = ClipRejects \<or> writeText legacy_browser = ClipAbsent"
    by (simp add: legacy_browser_def)
  have r: "writeText broken_browser = ClipRejects \<or> writeText broken_browser = ClipAbsent"
    by (simp add: broken_browser_def)
  have facts: "alerts mounted_world = []" "body mounted_world = []"
    "next_node mounted_world = 0" "execCommand legacy_browser = ExecTrue"
    "execCommand broken_browser = ExecThrows" "writeText legacy_browser = ClipAbsent"
    "writeText broken_browser = ClipRejects"
    by (simp_all add: mounted_world_eq alerts_def legacy_browser_def broken_browser_def)
  from shareCode_fallback [OF wf ed l] shareCode_fallback [OF wf ed r] wf ed
  show ?thesis
    by (auto simp add: facts)
qed

text \<open>
  Claim C6: with a widget present and a clipboard write that resolves, the share action
  completes with exactly one success notification; it creates no element, and the element
  objects and the body's children are untouched.
\<close>

theorem shareCode_clipboard_success:
  assumes "editor (comp w) = Some ed" and "writeText b = ClipResolves"
  shows "\<exists>w'. shareCode b w = Fulfilled w'
     \<and> alerts w' = alerts w @ [''Code copied to clipboard!'']
     \<and> trace w' = trace w @
          [ConsoleLog ''Sharing code:'' (getValue ed), WriteText (getValue ed),
           Alert ''Code copied to clipboard!'']
     \<and> nodes w' = nodes w \<and> next_node w' = next_node w \<and> body w' = body w"
  using assms by (simp add: shareCode_def Let_def emit_def alert_def alerts_def)

text \<open>Claim C6 on the mounted page, in a browser whose clipboard write resolves.\<close>

theorem shareCode_clipboard_success_witness:
  "editor (comp mounted_world) = Some \<lparr>getValue = html_sample\<rparr>
   \<and> writeText modern_browser = ClipResolves
   \<and> (\<exists>w'. shareCode modern_browser mounted_world = Fulfilled w'
        \<and> alerts w' = [''Code copied to clipboard!'']
        \<and> trace w' = [ConsoleLog ''Sharing code:'' html_sample, WriteText html_sample,
                       Alert ''Code copied to clipboard!'']
        \<and> nodes w' = Map.empty \<and> next_node w' = 0 \<and> body w' = [])"
proof -
  have ed: "editor (comp mounted_world) = Some \<lparr>getValue = html_sample\<rparr>"
    by (simp add: mounted_world_eq)
  have ok: "writeText modern_browser = ClipResolves"
    by (simp add: modern_browser_def)
  have facts: "alerts mounted_world = []" "body mounted_world = []" "trace mounted_world = []"
    "next_node mounted_world = 0" "nodes mounted_world = Map.empty"
    by (simp_all add: mounted_world_eq alerts_def)
  from shareCode_clipboard_success [OF ed ok] ed ok show ?thesis
    by (simp add: facts)
qed

text \<open>
  Claim C10: while the panel holds no widget, the share action completes and leaves the page
  exactly as it was: no clipboard write, no notification, no element. That is the state
  after a mount whose widget construction raised.
\<close>

theorem shareCode_without_editor:
  "(editor (comp w) = None \<longrightarrow> shareCode b w = Fulfilled w)
   \<and> (editor (comp w) = None
        \<and> monaco_create b' (ref_value (refs w) (defaultCode (editorStore (comp w))))
             (ref_value (refs w) (currentLanguage (editorStore (comp w))))
             (ref_value (refs w) (currentTheme (editorStore (comp w)))) = None
      \<longrightarrow> editor (comp (onMounted b' w)) = None
          \<and> shareCode b (onMounted b' w) = Fulfilled (onMounted b' w))"
  by (simp add: shareCode_def onMounted_def Let_def emit_def)

text \<open>
  Claim C10 on the page whose mount failed: sharing leaves it as it is, with the failed
  construction as the only logged call, in a browser with or without a clipboard.
\<close>

theorem shareCode_without_editor_witness:
  "editor (comp (render initial_world)) = None
   \<and> editor (comp degraded_world) = None
   \<and> shareCode modern_browser degraded_world = Fulfilled degraded_world
   \<and> shareCode legacy_browser degraded_world = Fulfilled degraded_world
   \<and> trace degraded_world = [ConsoleError ''Failed to initialize Monaco Editor:'']
   \<and> alerts degraded_world = []"
proof -
  have a: "editor (comp (render initial_world)) = None"
    by (simp add: render_def initial_world_eq)
  have c: "monaco_create broken_browser x y z = None" for x y z
    by (simp add: broken_browser_def)
  from shareCode_without_editor [of "render initial_world" modern_browser broken_browser]
    shareCode_without_editor [of "render initial_world" legacy_browser broken_browser] a c
  show ?thesis
    by (simp add: degraded_world_def [symmetric]) (simp add: degraded_world_eq alerts_def)
qed

end
